theory Spec2Isabelle
  imports Main
begin

section \<open>JavaScript values\<close>

text \<open>
  The values the news screen and its API wrappers handle are what the JSON responses of the
  backend, the browser's storage and the program's own literals produce. Numbers are
  restricted to integers in the range where JavaScript prints them as plain decimal
  digits; strings are lists of 8-bit characters. An object is an association list whose
  first binding of a key is the property's value.
\<close>

datatype jsval =
    JUndefined
  | JNull
  | JBool bool
  | JNum int
  | JStr string
  | JArr "jsval list"
  | JObj "(string \<times> jsval) list"

text \<open>ToBoolean: what \<open>if (v)\<close>, \<open>!v\<close>, \<open>v || w\<close> and \<open>v ? a : b\<close> test.\<close>

fun truthy :: "jsval \<Rightarrow> bool" where
  "truthy JUndefined = False"
| "truthy JNull = False"
| "truthy (JBool b) = b"
| "truthy (JNum n) = (if n = 0 then False else True)"
| "truthy (JStr s) = (if s = [] then False else True)"
| "truthy (JArr xs) = True"
| "truthy (JObj kvs) = True"

fun nullish :: "jsval \<Rightarrow> bool" where
  "nullish JUndefined = True"
| "nullish JNull = True"
| "nullish v = False"

text \<open>\<open>a || b\<close>: the left operand when it is truthy, the right one otherwise.\<close>

definition js_or :: "jsval \<Rightarrow> jsval \<Rightarrow> jsval" where
  "js_or a b = (if truthy a then a else b)"

text \<open>
  \<open>prop_of v k\<close> is the value of \<open>v.k\<close> for a receiver \<open>v\<close> that is neither \<open>null\<close> nor
  \<open>undefined\<close>: an object's own property, the \<open>length\<close> of an array or a string, and
  \<open>undefined\<close> for every other name this program reads (it reads no index and no
  prototype method).
\<close>

fun prop_of :: "jsval \<Rightarrow> string \<Rightarrow> jsval" where
  "prop_of (JObj kvs) k = (case map_of kvs k of None \<Rightarrow> JUndefined | Some v \<Rightarrow> v)"
| "prop_of (JArr xs) k = (if k = ''length'' then JNum (int (length xs)) else JUndefined)"
| "prop_of (JStr s) k = (if k = ''length'' then JNum (int (length s)) else JUndefined)"
| "prop_of v k = JUndefined"

fun show_nat :: "nat \<Rightarrow> string" where
  "show_nat n =
     (if n < 10 then [char_of (48 + n)]
      else show_nat (n div 10) @ [char_of (48 + n mod 10)])"

definition show_int :: "int \<Rightarrow> string" where
  "show_int i = (if i < 0 then CHR ''-'' # show_nat (nat (- i)) else show_nat (nat i))"

fun join_comma :: "string list \<Rightarrow> string" where
  "join_comma [] = []"
| "join_comma [s] = s"
| "join_comma (s # t # ss) = s @ CHR '','' # join_comma (t # ss)"

text \<open>
  ToString, as a template literal and a computed property key apply it. An array joins
  its elements with commas, \<open>null\<close> and \<open>undefined\<close> elements printing as nothing.
\<close>

fun ToString :: "jsval \<Rightarrow> string" where
  "ToString JUndefined = ''undefined''"
| "ToString JNull = ''null''"
| "ToString (JBool b) = (if b then ''true'' else ''false'')"
| "ToString (JNum n) = show_int n"
| "ToString (JStr s) = s"
| "ToString (JArr xs) = join_comma (map (\<lambda>x. if nullish x then [] else ToString x) xs)"
| "ToString (JObj kvs) = ''[object Object]''"

text \<open>
  A thrown value is a JavaScript value too. Reading a property of \<open>null\<close> or \<open>undefined\<close>
  throws a TypeError, an object with a \<open>message\<close> and no \<open>response\<close>. The message is
  worded as V8 words it, the property name in single quotes:
  \<open>Cannot read properties of undefined (reading 'data')\<close>.
\<close>

definition TypeError :: "jsval \<Rightarrow> string \<Rightarrow> jsval" where
  "TypeError v k =
     JObj [(''name'', JStr ''TypeError''),
           (''message'',
            JStr (''Cannot read properties of '' @ ToString v @ '' (reading '' @
                  CHR 0x27 # k @ CHR 0x27 # '')''))]"

text \<open>\<open>v.k\<close> in full: \<open>Inl\<close> is the value thrown, \<open>Inr\<close> the value read.\<close>

definition get_prop :: "jsval \<Rightarrow> string \<Rightarrow> jsval + jsval" where
  "get_prop v k = (if nullish v then Inl (TypeError v k) else Inr (prop_of v k))"

text \<open>\<open>v?.k\<close>: \<open>undefined\<close> for a \<open>null\<close> or \<open>undefined\<close> receiver, never throwing.\<close>

definition opt_prop :: "jsval \<Rightarrow> string \<Rightarrow> jsval" where
  "opt_prop v k = (if nullish v then JUndefined else prop_of v k)"

section \<open>The News Client (newsAPI.jsx)\<close>

text \<open>
  Each operation awaits one request of the shared axios instance (\<open>api.post\<close>,
  \<open>api.get\<close>). What that request does is the operation's last argument: the promise
  resolves with a value, or it rejects with a reason, which may be any value. (Axios
  itself rejects with an error object that has a \<open>message\<close> and, when the server
  answered, a \<open>response\<close>; the interceptors of the shared instance may reject with
  anything.)
\<close>

datatype outcome = Resolves jsval | Rejects jsval

text \<open>The request each operation sends: the URL under the base URL and the body.\<close>

definition searchNews_request :: "string \<Rightarrow> jsval \<Rightarrow> jsval \<Rightarrow> jsval \<Rightarrow> jsval \<Rightarrow> string \<times> jsval" where
  "searchNews_request API_URL query category language pageSize =
     (API_URL @ ''/news/search'',
      JObj [(''query'', query), (''category'', category), (''language'', language),
            (''page_size'', pageSize)])"

definition getNewsCategories_request :: "string \<Rightarrow> string" where
  "getNewsCategories_request API_URL = API_URL @ ''/news/categories''"

definition addNewsToWorkspace_request :: "string \<Rightarrow> jsval \<Rightarrow> string \<times> jsval" where
  "addNewsToWorkspace_request API_URL articleData =
     (API_URL @ ''/news/add-to-workspace'', articleData)"

text \<open>
  \<open>await api.post(...)\<close> inside a \<open>try\<close> block: the reason of a rejection is thrown
  there.
\<close>

definition await_request :: "outcome \<Rightarrow> jsval + jsval" where
  "await_request out =
     (case out of Resolves response \<Rightarrow> Inr response | Rejects reason \<Rightarrow> Inl reason)"

text \<open>
  The three operations have the same body. The \<open>try\<close> block awaits the request and
  reads \<open>response.data\<close>; the \<open>catch\<close> block gets whatever the \<open>try\<close> block threw and
  reads \<open>error.response\<close>, then \<open>error.response.data\<close> or \<open>error.message\<close>. Nothing
  catches what the \<open>catch\<close> block itself throws: that would be the \<open>Inl\<close> of the
  result. (\<open>console.error\<close> changes nothing.)
\<close>

definition searchNews :: "jsval \<Rightarrow> jsval \<Rightarrow> jsval \<Rightarrow> jsval \<Rightarrow> outcome \<Rightarrow> jsval + jsval" where
  "searchNews query category language pageSize out =
     (case (case await_request out of
              Inl e \<Rightarrow> Inl e
            | Inr response \<Rightarrow>
                (case get_prop response ''data'' of
                   Inl e \<Rightarrow> Inl e
                 | Inr d \<Rightarrow> Inr (JObj [(''success'', JBool True), (''data'', d)]))) of
        Inr result \<Rightarrow> Inr result
      | Inl error \<Rightarrow>
          (case get_prop error ''response'' of
             Inl e \<Rightarrow> Inl e
           | Inr r \<Rightarrow>
               Inr (JObj [(''success'', JBool False),
                          (''error'', if truthy r then prop_of r ''data''
                                      else prop_of error ''message'')])))"

definition getNewsCategories :: "outcome \<Rightarrow> jsval + jsval" where
  "getNewsCategories out =
     (case (case await_request out of
              Inl e \<Rightarrow> Inl e
            | Inr response \<Rightarrow>
                (case get_prop response ''data'' of
                   Inl e \<Rightarrow> Inl e
                 | Inr d \<Rightarrow> Inr (JObj [(''success'', JBool True), (''data'', d)]))) of
        Inr result \<Rightarrow> Inr result
      | Inl error \<Rightarrow>
          (case get_prop error ''response'' of
             Inl e \<Rightarrow> Inl e
           | Inr r \<Rightarrow>
               Inr (JObj [(''success'', JBool False),
                          (''error'', if truthy r then prop_of r ''data''
                                      else prop_of error ''message'')])))"

definition addNewsToWorkspace :: "jsval \<Rightarrow> outcome \<Rightarrow> jsval + jsval" where
  "addNewsToWorkspace articleData out =
     (case (case await_request out of
              Inl e \<Rightarrow> Inl e
            | Inr response \<Rightarrow>
                (case get_prop response ''data'' of
                   Inl e \<Rightarrow> Inl e
                 | Inr d \<Rightarrow> Inr (JObj [(''success'', JBool True), (''data'', d)]))) of
        Inr result \<Rightarrow> Inr result
      | Inl error \<Rightarrow>
          (case get_prop error ''response'' of
             Inl e \<Rightarrow> Inl e
           | Inr r \<Rightarrow>
               Inr (JObj [(''success'', JBool False),
                          (''error'', if truthy r then prop_of r ''data''
                                      else prop_of error ''message'')])))"


section \<open>The search screen (NewsPage)\<close>

text \<open>
  The component's state, one field per \<open>useState\<close>. The three text inputs hold strings;
  \<open>articles\<close>, \<open>error\<close>, \<open>categories\<close> and \<open>activeWorkspace\<close> hold whatever value the
  backend or the storage supplied; \<open>addedArticles\<close> is the Set of article keys,
  \<open>isAdding\<close> the object from property key to flag. Keys in the Set are compared as
  values, which is how a JavaScript Set compares strings, numbers, booleans, \<open>null\<close> and
  \<open>undefined\<close>; a Set compares arrays and objects by identity, so the model is exact
  for articles whose url and title are of the former kinds.
\<close>

record state =
  query :: string
  category :: string
  language :: string
  articles :: jsval
  loading :: bool
  error :: jsval
  categories :: jsval
  addedArticles :: "jsval set"
  activeWorkspace :: jsval
  isAdding :: "string \<rightharpoonup> bool"
  successMessage :: string

definition initial_state :: state where
  "initial_state =
     \<lparr>query = [], category = [], language = ''en'', articles = JArr [], loading = False,
      error = JStr [], categories = JArr [], addedArticles = {}, activeWorkspace = JNull,
      isAdding = Map.empty, successMessage = []\<rparr>"

text \<open>The calls into the News Client, with their arguments.\<close>

datatype api_request =
    SearchNews jsval jsval jsval jsval
  | GetNewsCategories
  | AddNewsToWorkspace jsval

text \<open>
  \<open>String.prototype.trim\<close> strips white space and line terminators from both ends; among
  8-bit characters these are tab, LF, VT, FF, CR, space and the no-break space.
\<close>

definition js_whitespace :: "char \<Rightarrow> bool" where
  "js_whitespace c = (of_char c \<in> set [9, 10, 11, 12, 13, 32, 160 :: nat])"

definition trim :: "string \<Rightarrow> string" where
  "trim s = rev (dropWhile js_whitespace (rev (dropWhile js_whitespace s)))"

subsection \<open>Effects on mount\<close>

text \<open>
  \<open>loadCategories\<close> after its await; the argument is what \<open>await getNewsCategories()\<close>
  gave (\<open>Inl\<close> when it threw). Nothing catches a throw here.
\<close>

definition loadCategories :: "jsval + jsval \<Rightarrow> state \<Rightarrow> jsval + state" where
  "loadCategories awaited s =
     (case awaited of
        Inl e \<Rightarrow> Inl e
      | Inr response \<Rightarrow>
          (case get_prop response ''success'' of
             Inl e \<Rightarrow> Inl e
           | Inr success \<Rightarrow>
               if truthy success then
                 (case get_prop (prop_of response ''data'') ''categories'' of
                    Inl e \<Rightarrow> Inl e
                  | Inr cs \<Rightarrow> Inr (s\<lparr>categories := js_or cs (JArr [])\<rparr>))
               else Inr s))"

text \<open>
  The second effect reads the stored workspace: \<open>saved\<close> is what
  \<open>localStorage.getItem\<close> returned (\<open>None\<close> for \<open>null\<close>), \<open>JSON_parse\<close> the parser.
\<close>

definition loadActiveWorkspace ::
  "string option \<Rightarrow> (string \<Rightarrow> jsval + jsval) \<Rightarrow> state \<Rightarrow> jsval + state" where
  "loadActiveWorkspace saved JSON_parse s =
     (case saved of
        None \<Rightarrow> Inr s
      | Some str \<Rightarrow>
          if truthy (JStr str) then
            (case JSON_parse str of
               Inl e \<Rightarrow> Inl e
             | Inr v \<Rightarrow> Inr (s\<lparr>activeWorkspace := v\<rparr>))
          else Inr s)"

subsection \<open>handleSearch\<close>

text \<open>
  An async handler runs in two parts: up to its \<open>await\<close>, where it issues the call, and
  from the settled call to its end. \<open>handleSearch_begin\<close> is the first part, returning
  the new state and the call issued, if any.
\<close>

definition handleSearch_begin :: "state \<Rightarrow> state \<times> api_request option" where
  "handleSearch_begin s =
     (if \<not> truthy (JStr (trim (query s))) then
        (s\<lparr>error := JStr ''Please enter a search query''\<rparr>, None)
      else
        (s\<lparr>loading := True, error := JStr [], articles := JArr []\<rparr>,
         Some (SearchNews (JStr (query s)) (js_or (JStr (category s)) JNull)
                 (JStr (language s)) (JNum 20))))"

text \<open>\<open>response.data.articles\<close>, which the handler evaluates twice.\<close>

definition response_data_articles :: "jsval \<Rightarrow> jsval + jsval" where
  "response_data_articles response =
     (case get_prop response ''data'' of
        Inl e \<Rightarrow> Inl e
      | Inr d \<Rightarrow> get_prop d ''articles'')"

text \<open>
  The \<open>try\<close> block from the settled await on: the state it leaves, with the value thrown
  if it threw. State setters that ran before a throw have taken effect.
\<close>

definition handleSearch_try :: "jsval + jsval \<Rightarrow> state \<Rightarrow> state \<times> jsval option" where
  "handleSearch_try awaited s =
     (case awaited of
        Inl e \<Rightarrow> (s, Some e)
      | Inr response \<Rightarrow>
          (case get_prop response ''success'' of
             Inl e \<Rightarrow> (s, Some e)
           | Inr success \<Rightarrow>
               if truthy success then
                 (case response_data_articles response of
                    Inl e \<Rightarrow> (s, Some e)
                  | Inr a \<Rightarrow>
                      let s1 = s\<lparr>articles := js_or a (JArr [])\<rparr> in
                      (case response_data_articles response of
                         Inl e \<Rightarrow> (s1, Some e)
                       | Inr a' \<Rightarrow>
                           (case get_prop a' ''length'' of
                              Inl e \<Rightarrow> (s1, Some e)
                            | Inr n \<Rightarrow>
                                if n = JNum 0 then
                                  (s1\<lparr>error :=
                                     JStr ''No news articles found. Try a different search query.''\<rparr>,
                                   None)
                                else (s1, None))))
               else
                 (s\<lparr>error := js_or (opt_prop (prop_of response ''error'') ''message'')
                                (JStr ''Failed to fetch news articles'')\<rparr>,
                  None)))"

text \<open>The \<open>catch\<close> and \<open>finally\<close> blocks after it.\<close>

definition handleSearch_settle :: "jsval + jsval \<Rightarrow> state \<Rightarrow> state" where
  "handleSearch_settle awaited s =
     (case handleSearch_try awaited s of
        (s1, None) \<Rightarrow> s1\<lparr>loading := False\<rparr>
      | (s1, Some err) \<Rightarrow>
          s1\<lparr>error := JStr ''An error occurred while fetching news. Please try again.'',
             loading := False\<rparr>)"

text \<open>The whole handler when nothing else happens while it waits.\<close>

definition handleSearch :: "state \<Rightarrow> jsval + jsval \<Rightarrow> state \<times> api_request option" where
  "handleSearch s awaited =
     (case handleSearch_begin s of
        (s1, None) \<Rightarrow> (s1, None)
      | (s1, Some call) \<Rightarrow> (handleSearch_settle awaited s1, Some call))"

subsection \<open>handleAddToWorkspace\<close>

definition articleKey :: "jsval \<Rightarrow> jsval" where
  "articleKey article = js_or (prop_of article ''url'') (prop_of article ''title'')"

text \<open>
  The argument of the \<open>addNewsToWorkspace\<close> call; \<open>now\<close> is \<open>new Date().toISOString()\<close>.
  The reads cannot throw: \<open>article.url\<close> was read before, and the workspace is truthy.
\<close>

definition article_payload :: "jsval \<Rightarrow> jsval \<Rightarrow> string \<Rightarrow> jsval" where
  "article_payload article workspace now =
     JObj [(''title'', js_or (prop_of article ''title'') (JStr [])),
           (''description'', js_or (prop_of article ''description'') (JStr [])),
           (''content'', js_or (js_or (prop_of article ''content'')
                                      (prop_of article ''description'')) (JStr [])),
           (''url'', js_or (prop_of article ''url'') (JStr [])),
           (''source'', js_or (prop_of article ''source'') (JStr ''Unknown'')),
           (''publishedAt'', js_or (prop_of article ''publishedAt'') (JStr now)),
           (''workspace_name'', prop_of workspace ''name'')]"

text \<open>
  The handler up to its await. Reading \<open>article.url\<close> is outside the \<open>try\<close> block: for
  a \<open>null\<close> or \<open>undefined\<close> article the handler throws (\<open>Inl\<close>) before it sets anything.
\<close>

definition handleAddToWorkspace_begin ::
  "state \<Rightarrow> jsval \<Rightarrow> string \<Rightarrow> jsval + state \<times> api_request option" where
  "handleAddToWorkspace_begin s article now =
     (if \<not> truthy (activeWorkspace s) then
        Inr (s\<lparr>error :=
                 JStr ''Please select a workspace first. Go to dashboard and select a workspace.'',
               successMessage := []\<rparr>,
             None)
      else
        (case get_prop article ''url'' of
           Inl e \<Rightarrow> Inl e
         | Inr u \<Rightarrow>
             Inr (s\<lparr>isAdding := (isAdding s)(ToString (articleKey article) \<mapsto> True),
                    error := JStr [], successMessage := []\<rparr>,
                  Some (AddNewsToWorkspace
                          (article_payload article (activeWorkspace s) now)))))"

text \<open>
  The rest of the handler. Its closure still holds the state of the render in which the
  button was clicked, \<open>snap\<close>: \<open>addedArticles\<close>, \<open>isAdding\<close> and \<open>activeWorkspace\<close> are
  read from there, while the setters act on the current state \<open>s\<close>. The timer that the
  success branch starts is \<open>clearSuccessMessage\<close> below.
\<close>

definition handleAddToWorkspace_try ::
  "state \<Rightarrow> jsval \<Rightarrow> jsval + jsval \<Rightarrow> state \<Rightarrow> state \<times> jsval option" where
  "handleAddToWorkspace_try snap article awaited s =
     (case awaited of
        Inl e \<Rightarrow> (s, Some e)
      | Inr response \<Rightarrow>
          (case get_prop response ''success'' of
             Inl e \<Rightarrow> (s, Some e)
           | Inr success \<Rightarrow>
               if truthy success then
                 (s\<lparr>addedArticles := insert (articleKey article) (addedArticles snap),
                    successMessage :=
                      CHR 0x22 # ToString (prop_of article ''title'') @ CHR 0x22 #
                      '' added to '' @ ToString (prop_of (activeWorkspace snap) ''name'') @
                      '' workspace!'',
                    error := JStr []\<rparr>,
                  None)
               else
                 (s\<lparr>error := js_or (opt_prop (prop_of response ''error'') ''message'')
                                (JStr ''Failed to add article to workspace''),
                    successMessage := []\<rparr>,
                  None)))"

definition handleAddToWorkspace_settle ::
  "state \<Rightarrow> jsval \<Rightarrow> jsval + jsval \<Rightarrow> state \<Rightarrow> state" where
  "handleAddToWorkspace_settle snap article awaited s =
     (case handleAddToWorkspace_try snap article awaited s of
        (s1, None) \<Rightarrow>
          s1\<lparr>isAdding := (isAdding snap)(ToString (articleKey article) \<mapsto> False)\<rparr>
      | (s1, Some err) \<Rightarrow>
          s1\<lparr>error := JStr ''Failed to add article to workspace'', successMessage := [],
             isAdding := (isAdding snap)(ToString (articleKey article) \<mapsto> False)\<rparr>)"

text \<open>The callback of \<open>setTimeout\<close>, three seconds after a successful add.\<close>

definition clearSuccessMessage :: "state \<Rightarrow> state" where
  "clearSuccessMessage s = s\<lparr>successMessage := []\<rparr>"

text \<open>The whole handler when nothing else happens while it waits.\<close>

definition handleAddToWorkspace ::
  "state \<Rightarrow> jsval \<Rightarrow> string \<Rightarrow> jsval + jsval \<Rightarrow> jsval + state \<times> api_request option" where
  "handleAddToWorkspace s article now awaited =
     (case handleAddToWorkspace_begin s article now of
        Inl e \<Rightarrow> Inl e
      | Inr (s1, None) \<Rightarrow> Inr (s1, None)
      | Inr (s1, Some call) \<Rightarrow>
          Inr (handleAddToWorkspace_settle s article awaited s1, Some call))"

subsection \<open>The rendered controls\<close>

text \<open>The \<open>onChange\<close> handler of the query input.\<close>

definition setQuery :: "string \<Rightarrow> state \<Rightarrow> state" where
  "setQuery v s = s\<lparr>query := v\<rparr>"

text \<open>The \<open>disabled\<close> attribute of the submit button.\<close>

definition search_disabled :: "state \<Rightarrow> bool" where
  "search_disabled s = (if loading s then True else \<not> truthy (JStr (trim (query s))))"

text \<open>
  The \<open>disabled\<close> attribute of an article's add button:
  \<open>isAdded || isAddingArticle || !activeWorkspace\<close>. Rendering reads \<open>article.url\<close> and
  throws for an article that is \<open>null\<close> or \<open>undefined\<close>.
\<close>

definition add_disabled :: "state \<Rightarrow> jsval \<Rightarrow> jsval + bool" where
  "add_disabled s article =
     (case get_prop article ''url'' of
        Inl e \<Rightarrow> Inl e
      | Inr u \<Rightarrow>
          Inr (if articleKey article \<in> addedArticles s then True
               else if isAdding s (ToString (articleKey article)) = Some True then True
               else \<not> truthy (activeWorkspace s)))"

section \<open>Notions used to state the properties\<close>

text \<open>The two result shapes, with the error the failure shape carries for a caught \<open>err\<close>.\<close>

definition uniform_success :: "jsval \<Rightarrow> jsval" where
  "uniform_success d = JObj [(''success'', JBool True), (''data'', d)]"

definition uniform_failure :: "jsval \<Rightarrow> jsval" where
  "uniform_failure err =
     JObj [(''success'', JBool False),
           (''error'', if truthy (prop_of err ''response'')
                       then prop_of (prop_of err ''response'') ''data''
                       else prop_of err ''message'')]"


text \<open>An awaited call returned success: it did not throw and \<open>response.success\<close> is truthy.\<close>

definition call_succeeded :: "jsval + jsval \<Rightarrow> bool" where
  "call_succeeded awaited =
     (case awaited of
        Inl e \<Rightarrow> False
      | Inr response \<Rightarrow>
          (case get_prop response ''success'' of Inl e \<Rightarrow> False | Inr v \<Rightarrow> truthy v))"

subsection \<open>A session: one workspace, two articles\<close>

definition ex_workspace :: jsval where
  "ex_workspace = JObj [(''name'', JStr ''research'')]"

definition ex_article_A :: jsval where
  "ex_article_A = JObj [(''title'', JStr ''A''), (''url'', JStr ''https://a'')]"

definition ex_article_B :: jsval where
  "ex_article_B = JObj [(''title'', JStr ''B''), (''url'', JStr ''https://b'')]"

definition ex_now :: string where
  "ex_now = ''2026-01-01T00:00:00.000Z''"

text \<open>
  The stored string \<open>{"name":"research"}\<close>, and \<open>JSON.parse\<close> as far as this session
  needs it: on that string.
\<close>

definition ex_saved :: string where
  "ex_saved =
     CHR ''{'' # CHR 0x22 # ''name'' @ CHR 0x22 # CHR '':'' # CHR 0x22 # ''research'' @
     [CHR 0x22, CHR ''}'']"

definition ex_parse :: "string \<Rightarrow> jsval + jsval" where
  "ex_parse str =
     (if str = ex_saved then Inr ex_workspace
      else Inl (JObj [(''name'', JStr ''SyntaxError'')]))"

definition ex_found :: outcome where
  "ex_found =
     Resolves (JObj [(''data'', JObj [(''articles'', JArr [ex_article_A, ex_article_B])])])"

definition ex_nothing :: outcome where
  "ex_nothing = Resolves (JObj [(''data'', JObj [(''articles'', JArr [])])])"

definition ex_stored :: outcome where
  "ex_stored = Resolves (JObj [(''data'', JObj [(''message'', JStr ''stored'')])])"

text \<open>After mount, and after the search for \<open>climate\<close> has returned both articles.\<close>

definition ex_mounted :: state where
  "ex_mounted = initial_state\<lparr>activeWorkspace := ex_workspace\<rparr>"

definition ex_results :: state where
  "ex_results =
     ex_mounted\<lparr>query := ''climate'', articles := JArr [ex_article_A, ex_article_B]\<rparr>"

text \<open>First continuation: article A added, then a search for \<open>zzz\<close> that finds nothing.\<close>

definition ex_added_A :: state where
  "ex_added_A =
     ex_results\<lparr>addedArticles := {JStr ''https://a''},
                isAdding := [''https://a'' \<mapsto> False],
                successMessage :=
                  CHR 0x22 # ''A'' @ CHR 0x22 # '' added to research workspace!''\<rparr>"

definition ex_no_results :: state where
  "ex_no_results =
     ex_added_A\<lparr>query := ''zzz'', articles := JArr [],
                error := JStr ''No news articles found. Try a different search query.''\<rparr>"

text \<open>
  Second continuation: A is clicked, then B while A is in flight; B's call settles first,
  then A's.
\<close>

definition ex_pending_A :: state where
  "ex_pending_A = ex_results\<lparr>isAdding := [''https://a'' \<mapsto> True]\<rparr>"

definition ex_pending_AB :: state where
  "ex_pending_AB =
     ex_results\<lparr>isAdding := [''https://a'' \<mapsto> True, ''https://b'' \<mapsto> True]\<rparr>"

definition ex_settled_B :: state where
  "ex_settled_B =
     ex_results\<lparr>addedArticles := {JStr ''https://b''},
                isAdding := [''https://a'' \<mapsto> True, ''https://b'' \<mapsto> False],
                successMessage :=
                  CHR 0x22 # ''B'' @ CHR 0x22 # '' added to research workspace!''\<rparr>"

definition ex_settled_BA :: state where
  "ex_settled_BA =
     ex_results\<lparr>addedArticles := {JStr ''https://a''},
                isAdding := [''https://a'' \<mapsto> False],
                successMessage :=
                  CHR 0x22 # ''A'' @ CHR 0x22 # '' added to research workspace!''\<rparr>"

section \<open>Properties of the News Client\<close>

lemma truthy_not_nullish: "truthy v \<Longrightarrow> \<not> nullish v"
  by (cases v) auto


lemma api_rejects_nullish:
  "nullish e \<Longrightarrow> searchNews q c l p (Rejects e) = Inl (TypeError e ''response'')"
  "nullish e \<Longrightarrow> getNewsCategories (Rejects e) = Inl (TypeError e ''response'')"
  "nullish e \<Longrightarrow> addNewsToWorkspace a (Rejects e) = Inl (TypeError e ''response'')"
  by (simp_all add: searchNews_def getNewsCategories_def addNewsToWorkspace_def
      await_request_def get_prop_def)






section \<open>Properties of handleSearch\<close>

text \<open>
  Claim C4. When the query is empty after trimming, submitting the form sets the error
  to the fixed validation message, changes no other field of the state, and issues no
  call: neither the first part of the handler nor the handler as a whole calls
  \<open>searchNews\<close>.
\<close>

theorem C4_blank_query_no_request:
  "trim (query s) = [] \<Longrightarrow>
   handleSearch_begin s = (s\<lparr>error := JStr ''Please enter a search query''\<rparr>, None) \<and>
   handleSearch s awaited = (s\<lparr>error := JStr ''Please enter a search query''\<rparr>, None)"
  by (simp add: handleSearch_def handleSearch_begin_def)

theorem C4_blank_query_witness:
  "trim (query (initial_state\<lparr>query := [CHR 0x20, CHR 0x09]\<rparr>)) = [] \<and>
   handleSearch (initial_state\<lparr>query := [CHR 0x20, CHR 0x09]\<rparr>) (Inr JNull) =
     (initial_state\<lparr>query := [CHR 0x20, CHR 0x09],
                    error := JStr ''Please enter a search query''\<rparr>, None)"
proof -
  have h: "trim (query (initial_state\<lparr>query := [CHR 0x20, CHR 0x09]\<rparr>)) = []"
    by (simp add: trim_def js_whitespace_def)
  show ?thesis
    using h C4_blank_query_no_request [OF h, of "Inr JNull"] by simp
qed

text \<open>
  Claim C6. When a submission issues a request, the state the handler leaves before the
  call has the loading flag set; and whatever the awaited call does (it returns a
  success, returns a failure, returns anything else, or throws) and whatever the state
  is by then, the state after the handler's \<open>finally\<close> block has the flag cleared.
\<close>

theorem C6_loading_set_then_cleared:
  assumes "handleSearch_begin s = (s1, Some call)"
  shows "loading s1 \<and> \<not> loading (handleSearch_settle awaited s') \<and>
         handleSearch s awaited = (handleSearch_settle awaited s1, Some call) \<and>
         \<not> loading (fst (handleSearch s awaited))"
proof -
  have 1: "loading s1"
    using assms by (auto simp: handleSearch_begin_def split: if_splits)
  have 2: "\<not> loading (handleSearch_settle awaited t)" for t
    by (simp add: handleSearch_settle_def split: prod.splits option.splits)
  have 3: "handleSearch s awaited = (handleSearch_settle awaited s1, Some call)"
    using assms by (simp add: handleSearch_def)
  from 1 2 3 show ?thesis by simp
qed

theorem C6_loading_witness:
  "handleSearch_begin (initial_state\<lparr>query := ''x''\<rparr>) =
     (initial_state\<lparr>query := ''x'', loading := True\<rparr>,
      Some (SearchNews (JStr ''x'') JNull (JStr ''en'') (JNum 20))) \<and>
   loading (initial_state\<lparr>query := ''x'', loading := True\<rparr>) \<and>
   \<not> loading (fst (handleSearch (initial_state\<lparr>query := ''x''\<rparr>) (Inl (JStr ''thrown''))))"
proof -
  have h: "handleSearch_begin (initial_state\<lparr>query := ''x''\<rparr>) =
     (initial_state\<lparr>query := ''x'', loading := True\<rparr>,
      Some (SearchNews (JStr ''x'') JNull (JStr ''en'') (JNum 20)))"
    by (simp add: handleSearch_begin_def initial_state_def trim_def js_whitespace_def js_or_def)
  show ?thesis
    using h C6_loading_set_then_cleared [OF h, of "Inl (JStr ''thrown'')"] by simp
qed

text \<open>
  Claim C7. A search is issued (the query is not blank) and its response has a truthy
  \<open>success\<close> and an array \<open>data.articles\<close>. Then the article list is that array, the
  same elements in the same order; if the array is empty the error is the fixed "no
  results" message, and if it has one or more elements the error is the empty string.
\<close>

theorem C7_search_success_articles:
  assumes "truthy (JStr (trim (query s)))"
    and "get_prop response ''success'' = Inr v" and "truthy v"
    and "response_data_articles response = Inr (JArr xs)"
  shows "articles (fst (handleSearch s (Inr response))) = JArr xs \<and>
         error (fst (handleSearch s (Inr response))) =
           (if xs = [] then JStr ''No news articles found. Try a different search query.''
            else JStr [])"
  using assms
  by (simp add: handleSearch_def handleSearch_begin_def handleSearch_settle_def
      handleSearch_try_def js_or_def get_prop_def)

theorem C7_search_success_witness:
  "articles (fst (handleSearch (initial_state\<lparr>query := ''x''\<rparr>)
       (Inr (uniform_success (JObj [(''articles'', JArr [JStr ''a1'', JStr ''a2''])]))))) =
     JArr [JStr ''a1'', JStr ''a2''] \<and>
   error (fst (handleSearch (initial_state\<lparr>query := ''x''\<rparr>)
       (Inr (uniform_success (JObj [(''articles'', JArr [JStr ''a1'', JStr ''a2''])]))))) =
     JStr [] \<and>
   articles (fst (handleSearch (initial_state\<lparr>query := ''x''\<rparr>)
       (Inr (uniform_success (JObj [(''articles'', JArr [])]))))) = JArr [] \<and>
   error (fst (handleSearch (initial_state\<lparr>query := ''x''\<rparr>)
       (Inr (uniform_success (JObj [(''articles'', JArr [])]))))) =
     JStr ''No news articles found. Try a different search query.''"
proof -
  have q: "truthy (JStr (trim (query (initial_state\<lparr>query := ''x''\<rparr>))))"
    by (simp add: trim_def js_whitespace_def)
  have ok: "get_prop (uniform_success d) ''success'' = Inr (JBool True)" for d
    by (simp add: uniform_success_def get_prop_def)
  have t: "truthy (JBool True)" by simp
  have a: "response_data_articles (uniform_success (JObj [(''articles'', JArr ys)])) =
             Inr (JArr ys)" for ys
    by (simp add: response_data_articles_def uniform_success_def get_prop_def)
  show ?thesis
    using C7_search_success_articles [OF q ok t a, of "[JStr ''a1'', JStr ''a2'']"]
      C7_search_success_articles [OF q ok t a, of "[]"]
    by simp
qed

text \<open>
  Claim C10. A search is issued and its response has a truthy \<open>success\<close>, but \<open>data\<close> is
  \<open>null\<close> or \<open>undefined\<close>, or \<open>data.articles\<close> is. Then the \<open>try\<close> block throws a
  TypeError (reading \<open>articles\<close> of the missing \<open>data\<close>, or else reading \<open>length\<close> of
  the missing \<open>articles\<close>) and the handler catches it: the article list is empty, the
  error is the generic message, and the loading flag is cleared.
\<close>

theorem C10_missing_articles_caught:
  assumes "truthy (JStr (trim (query s)))"
    and "get_prop response ''success'' = Inr v" and "truthy v"
    and "nullish (prop_of response ''data'') \<or>
         nullish (prop_of (prop_of response ''data'') ''articles'')"
  shows "snd (handleSearch_try (Inr response) (fst (handleSearch_begin s))) =
           Some (if nullish (prop_of response ''data'')
                 then TypeError (prop_of response ''data'') ''articles''
                 else TypeError (prop_of (prop_of response ''data'') ''articles'') ''length'') \<and>
         articles (fst (handleSearch s (Inr response))) = JArr [] \<and>
         error (fst (handleSearch s (Inr response))) =
           JStr ''An error occurred while fetching news. Please try again.'' \<and>
         \<not> loading (fst (handleSearch s (Inr response)))"
  using assms
  by (auto simp: handleSearch_def handleSearch_begin_def handleSearch_settle_def
      handleSearch_try_def js_or_def get_prop_def response_data_articles_def
      dest: truthy_not_nullish split: if_splits sum.splits)

theorem C10_missing_articles_witness:
  "articles (fst (handleSearch (initial_state\<lparr>query := ''x''\<rparr>)
       (Inr (uniform_success (JObj []))))) = JArr [] \<and>
   error (fst (handleSearch (initial_state\<lparr>query := ''x''\<rparr>) (Inr (uniform_success (JObj []))))) =
     JStr ''An error occurred while fetching news. Please try again.'' \<and>
   \<not> loading (fst (handleSearch (initial_state\<lparr>query := ''x''\<rparr>)
       (Inr (uniform_success (JObj []))))) \<and>
   error (fst (handleSearch (initial_state\<lparr>query := ''x''\<rparr>)
       (Inr (uniform_success JUndefined)))) =
     JStr ''An error occurred while fetching news. Please try again.''"
proof -
  have q: "truthy (JStr (trim (query (initial_state\<lparr>query := ''x''\<rparr>))))"
    by (simp add: trim_def js_whitespace_def)
  have ok: "get_prop (uniform_success d) ''success'' = Inr (JBool True)" for d
    by (simp add: uniform_success_def get_prop_def)
  have t: "truthy (JBool True)" by simp
  have m1: "nullish (prop_of (uniform_success (JObj [])) ''data'') \<or>
            nullish (prop_of (prop_of (uniform_success (JObj [])) ''data'') ''articles'')"
    by (simp add: uniform_success_def)
  have m2: "nullish (prop_of (uniform_success JUndefined) ''data'') \<or>
            nullish (prop_of (prop_of (uniform_success JUndefined) ''data'') ''articles'')"
    by (simp add: uniform_success_def)
  show ?thesis
    using C10_missing_articles_caught [OF q ok t m1] C10_missing_articles_caught [OF q ok t m2]
    by simp
qed

section \<open>Properties of handleAddToWorkspace\<close>

text \<open>
  Claim C8. With no active workspace (the value is falsy), the add action sets the error
  to the fixed warning, clears the success message, changes nothing else (so AddedSet
  and the pending map stay as they were) and issues no call, for every article.
\<close>

theorem C8_no_workspace_no_request:
  "\<not> truthy (activeWorkspace s) \<Longrightarrow>
   handleAddToWorkspace_begin s article now =
     Inr (s\<lparr>error :=
              JStr ''Please select a workspace first. Go to dashboard and select a workspace.'',
            successMessage := []\<rparr>, None) \<and>
   handleAddToWorkspace s article now awaited =
     Inr (s\<lparr>error :=
              JStr ''Please select a workspace first. Go to dashboard and select a workspace.'',
            successMessage := []\<rparr>, None) \<and>
   addedArticles (s\<lparr>error :=
              JStr ''Please select a workspace first. Go to dashboard and select a workspace.'',
            successMessage := []\<rparr>) = addedArticles s \<and>
   isAdding (s\<lparr>error :=
              JStr ''Please select a workspace first. Go to dashboard and select a workspace.'',
            successMessage := []\<rparr>) = isAdding s"
  by (simp add: handleAddToWorkspace_def handleAddToWorkspace_begin_def)

theorem C8_no_workspace_witness:
  "\<not> truthy (activeWorkspace (initial_state\<lparr>successMessage := ''old''\<rparr>)) \<and>
   handleAddToWorkspace (initial_state\<lparr>successMessage := ''old''\<rparr>) ex_article_A ex_now
       (Inr (uniform_success JNull)) =
     Inr (initial_state\<lparr>error :=
              JStr ''Please select a workspace first. Go to dashboard and select a workspace.''\<rparr>,
          None)"
proof -
  have h: "\<not> truthy (activeWorkspace (initial_state\<lparr>successMessage := ''old''\<rparr>))"
    by (simp add: initial_state_def)
  show ?thesis
    using h C8_no_workspace_no_request [OF h, of ex_article_A ex_now "Inr (uniform_success JNull)"]
    by (simp add: initial_state_def)
qed

lemma settle_isAdding:
  "isAdding (handleAddToWorkspace_settle snap article awaited s) =
     (isAdding snap)(ToString (articleKey article) \<mapsto> False)"
  by (simp add: handleAddToWorkspace_settle_def split: prod.splits option.splits)

lemma settle_addedArticles:
  "addedArticles (handleAddToWorkspace_settle snap article awaited s) =
     (if call_succeeded awaited then insert (articleKey article) (addedArticles snap)
      else addedArticles s)"
  by (auto simp: handleAddToWorkspace_settle_def handleAddToWorkspace_try_def
      call_succeeded_def split: sum.splits prod.splits option.splits)

lemma begin_addedArticles:
  "handleAddToWorkspace_begin s article now = Inr (s1, c) \<Longrightarrow>
   addedArticles s1 = addedArticles s"
  by (auto simp: handleAddToWorkspace_begin_def split: if_splits sum.splits)

text \<open>
  Claim C5. The first part of the add action, which ends by issuing the call, leaves
  AddedSet as it was. When the call has settled, the rest of the handler sets the pending
  flag of the article's key (its url, or its title when the url is falsy) to \<open>false\<close>,
  whether the call returned success, returned failure or threw; it puts the key into
  AddedSet if the call returned success, and otherwise leaves AddedSet as it was. This
  holds for every state the handler's closure may hold and every current state.
\<close>

theorem C5_added_on_success_pending_cleared:
  assumes "handleAddToWorkspace_begin s article now = Inr (s1, c)"
  shows "addedArticles s1 = addedArticles s \<and>
         isAdding (handleAddToWorkspace_settle snap article awaited s')
           (ToString (js_or (prop_of article ''url'') (prop_of article ''title''))) =
           Some False \<and>
         addedArticles (handleAddToWorkspace_settle snap article awaited s') =
           (if call_succeeded awaited
            then insert (js_or (prop_of article ''url'') (prop_of article ''title''))
                   (addedArticles snap)
            else addedArticles s')"
  using begin_addedArticles [OF assms]
  by (simp add: settle_isAdding settle_addedArticles articleKey_def)

theorem C5_added_on_success_witness:
  "handleAddToWorkspace_begin ex_results ex_article_A ex_now =
     Inr (ex_pending_A,
          Some (AddNewsToWorkspace (article_payload ex_article_A ex_workspace ex_now))) \<and>
   addedArticles ex_pending_A = {} \<and>
   isAdding (handleAddToWorkspace_settle ex_results ex_article_A
               (Inr (uniform_success JNull)) ex_pending_A) ''https://a'' = Some False \<and>
   addedArticles (handleAddToWorkspace_settle ex_results ex_article_A
               (Inr (uniform_success JNull)) ex_pending_A) = {JStr ''https://a''} \<and>
   isAdding (handleAddToWorkspace_settle ex_results ex_article_A
               (Inr (uniform_failure (JObj []))) ex_pending_A) ''https://a'' = Some False \<and>
   addedArticles (handleAddToWorkspace_settle ex_results ex_article_A
               (Inr (uniform_failure (JObj []))) ex_pending_A) = {}"
proof -
  have h: "handleAddToWorkspace_begin ex_results ex_article_A ex_now =
     Inr (ex_pending_A,
          Some (AddNewsToWorkspace (article_payload ex_article_A ex_workspace ex_now)))"
    by (simp add: handleAddToWorkspace_begin_def get_prop_def articleKey_def js_or_def
        ex_results_def ex_mounted_def ex_pending_A_def initial_state_def ex_article_A_def
        ex_workspace_def)
  have ok: "call_succeeded (Inr (uniform_success JNull))"
    by (simp add: call_succeeded_def uniform_success_def get_prop_def)
  have ko: "\<not> call_succeeded (Inr (uniform_failure (JObj [])))"
    by (simp add: call_succeeded_def uniform_failure_def get_prop_def)
  have k: "js_or (prop_of ex_article_A ''url'') (prop_of ex_article_A ''title'') =
             JStr ''https://a''"
    by (simp add: js_or_def ex_article_A_def)
  have e: "addedArticles ex_results = {}" "addedArticles ex_pending_A = {}"
    by (simp_all add: ex_results_def ex_mounted_def ex_pending_A_def initial_state_def)
  show ?thesis
    using h
      C5_added_on_success_pending_cleared [OF h, of ex_results "Inr (uniform_success JNull)"
        ex_pending_A]
      C5_added_on_success_pending_cleared [OF h, of ex_results
        "Inr (uniform_failure (JObj []))" ex_pending_A]
    by (simp add: ok ko k e)
qed

lemma payload_fields:
  "prop_of (article_payload article ws now) ''title'' =
     js_or (prop_of article ''title'') (JStr [])"
  "prop_of (article_payload article ws now) ''description'' =
     js_or (prop_of article ''description'') (JStr [])"
  "prop_of (article_payload article ws now) ''content'' =
     js_or (js_or (prop_of article ''content'') (prop_of article ''description'')) (JStr [])"
  "prop_of (article_payload article ws now) ''url'' =
     js_or (prop_of article ''url'') (JStr [])"
  "prop_of (article_payload article ws now) ''source'' =
     js_or (prop_of article ''source'') (JStr ''Unknown'')"
  "prop_of (article_payload article ws now) ''publishedAt'' =
     js_or (prop_of article ''publishedAt'') (JStr now)"
  "prop_of (article_payload article ws now) ''workspace_name'' = prop_of ws ''name''"
  by (simp_all add: article_payload_def)

text \<open>
  Claim C2, as amended. With an active workspace, the add action for an article (any
  value but \<open>null\<close> and \<open>undefined\<close>) calls \<open>addNewsToWorkspace\<close> with a payload in which
  a missing (falsy) title, description or url is the empty string, a missing source is
  "Unknown", a missing publishedAt is the current timestamp, and \<open>workspace_name\<close> is the
  active workspace's name. A missing content is the article's description when that is
  present, and the empty string only when the description is missing too.
\<close>

theorem C2_payload_defaults:
  assumes "truthy (activeWorkspace s)" and "\<not> nullish article"
  shows "\<exists>s1 p. handleAddToWorkspace_begin s article now =
                   Inr (s1, Some (AddNewsToWorkspace p)) \<and>
           (\<not> truthy (prop_of article ''title'') \<longrightarrow> prop_of p ''title'' = JStr []) \<and>
           (\<not> truthy (prop_of article ''description'') \<longrightarrow>
              prop_of p ''description'' = JStr []) \<and>
           (\<not> truthy (prop_of article ''url'') \<longrightarrow> prop_of p ''url'' = JStr []) \<and>
           (\<not> truthy (prop_of article ''content'') \<longrightarrow>
              prop_of p ''content'' =
                (if truthy (prop_of article ''description'')
                 then prop_of article ''description'' else JStr [])) \<and>
           (\<not> truthy (prop_of article ''source'') \<longrightarrow>
              prop_of p ''source'' = JStr ''Unknown'') \<and>
           (\<not> truthy (prop_of article ''publishedAt'') \<longrightarrow>
              prop_of p ''publishedAt'' = JStr now) \<and>
           prop_of p ''workspace_name'' = prop_of (activeWorkspace s) ''name''"
proof -
  have "handleAddToWorkspace_begin s article now =
          Inr (s\<lparr>isAdding := (isAdding s)(ToString (articleKey article) \<mapsto> True),
                 error := JStr [], successMessage := []\<rparr>,
               Some (AddNewsToWorkspace (article_payload article (activeWorkspace s) now)))"
    using assms by (simp add: handleAddToWorkspace_begin_def get_prop_def)
  then show ?thesis
    by (simp add: payload_fields js_or_def)
qed

theorem C2_payload_defaults_witness:
  "truthy (activeWorkspace ex_mounted) \<and> \<not> nullish (JObj []) \<and>
   handleAddToWorkspace_begin ex_mounted (JObj []) ex_now =
     Inr (ex_mounted\<lparr>isAdding := [''undefined'' \<mapsto> True]\<rparr>,
          Some (AddNewsToWorkspace
            (JObj [(''title'', JStr []), (''description'', JStr []), (''content'', JStr []),
                   (''url'', JStr []), (''source'', JStr ''Unknown''),
                   (''publishedAt'', JStr ex_now), (''workspace_name'', JStr ''research'')])))"
proof -
  have w: "truthy (activeWorkspace ex_mounted)"
    by (simp add: ex_mounted_def ex_workspace_def)
  have a: "\<not> nullish (JObj [])" by simp
  have b: "handleAddToWorkspace_begin ex_mounted (JObj []) ex_now =
     Inr (ex_mounted\<lparr>isAdding := [''undefined'' \<mapsto> True]\<rparr>,
          Some (AddNewsToWorkspace
            (JObj [(''title'', JStr []), (''description'', JStr []), (''content'', JStr []),
                   (''url'', JStr []), (''source'', JStr ''Unknown''),
                   (''publishedAt'', JStr ex_now), (''workspace_name'', JStr ''research'')])))"
    by (simp add: handleAddToWorkspace_begin_def get_prop_def articleKey_def js_or_def
        article_payload_def ex_mounted_def ex_workspace_def initial_state_def)
  show ?thesis
    using w a b C2_payload_defaults [OF w a, of ex_now] by simp
qed

text \<open>
  The claim as first stated fails for the content field: an article with a description
  and no content is sent with its description as content, not with the empty string.
\<close>

theorem C2_content_default_counterexample:
  "prop_of (JObj [(''title'', JStr ''T''), (''description'', JStr ''D'')]) ''content'' =
     JUndefined \<and>
   map_sum id snd
     (handleAddToWorkspace_begin
        (initial_state\<lparr>activeWorkspace := JObj [(''name'', JStr ''ws'')]\<rparr>)
        (JObj [(''title'', JStr ''T''), (''description'', JStr ''D'')])
        ''2026-01-01T00:00:00.000Z'') =
     Inr (Some (AddNewsToWorkspace
       (JObj [(''title'', JStr ''T''), (''description'', JStr ''D''), (''content'', JStr ''D''),
              (''url'', JStr []), (''source'', JStr ''Unknown''),
              (''publishedAt'', JStr ''2026-01-01T00:00:00.000Z''),
              (''workspace_name'', JStr ''ws'')]))) \<and>
   JStr ''D'' \<noteq> JStr []"
  by (simp add: handleAddToWorkspace_begin_def initial_state_def get_prop_def
      article_payload_def js_or_def)

section \<open>The two messages\<close>

text \<open>
  Every path of \<open>handleAddToWorkspace\<close> that sets the error clears the success message,
  and its success path clears the error: after its first part, and after its second
  part from any state, at most one of the two messages is shown.
\<close>

lemma handleAddToWorkspace_begin_one_message:
  "handleAddToWorkspace_begin s article now = Inr (s1, c) \<Longrightarrow> successMessage s1 = []"
  by (auto simp: handleAddToWorkspace_begin_def split: if_splits sum.splits)

lemma handleAddToWorkspace_settle_one_message:
  "successMessage (handleAddToWorkspace_settle snap article awaited s) = [] \<or>
   error (handleAddToWorkspace_settle snap article awaited s) = JStr []"
  by (auto simp: handleAddToWorkspace_settle_def handleAddToWorkspace_try_def
      split: sum.splits prod.splits option.splits)

text \<open>\<open>handleSearch\<close> sets the error on four paths and never touches the success message.\<close>

lemma handleSearch_keeps_successMessage:
  "successMessage (fst (handleSearch s awaited)) = successMessage s"
  by (simp add: handleSearch_def handleSearch_begin_def handleSearch_settle_def
      handleSearch_try_def Let_def split: sum.splits)

text \<open>
  Claim C1 does not hold of \<open>handleSearch\<close>. In this session the workspace is loaded on
  mount, a search for \<open>climate\<close> returns two articles, article A is added with success
  (the success message is shown), and before the timer clears that message a search for
  \<open>zzz\<close> returns no article: the screen then shows the "no results" error and the
  success message together. Every control used is enabled when it is used.
\<close>

theorem C1_search_error_beside_success_message:
  "loadActiveWorkspace (Some ex_saved) ex_parse initial_state = Inr ex_mounted \<and>
   search_disabled (setQuery ''climate'' ex_mounted) = False \<and>
   handleSearch (setQuery ''climate'' ex_mounted)
       (searchNews (JStr ''climate'') JNull (JStr ''en'') (JNum 20) ex_found) =
     (ex_results, Some (SearchNews (JStr ''climate'') JNull (JStr ''en'') (JNum 20))) \<and>
   add_disabled ex_results ex_article_A = Inr False \<and>
   handleAddToWorkspace ex_results ex_article_A ex_now
       (addNewsToWorkspace (article_payload ex_article_A ex_workspace ex_now) ex_stored) =
     Inr (ex_added_A,
          Some (AddNewsToWorkspace (article_payload ex_article_A ex_workspace ex_now))) \<and>
   search_disabled (setQuery ''zzz'' ex_added_A) = False \<and>
   handleSearch (setQuery ''zzz'' ex_added_A)
       (searchNews (JStr ''zzz'') JNull (JStr ''en'') (JNum 20) ex_nothing) =
     (ex_no_results, Some (SearchNews (JStr ''zzz'') JNull (JStr ''en'') (JNum 20))) \<and>
   truthy (error ex_no_results) \<and> truthy (JStr (successMessage ex_no_results))"
proof (intro conjI)
  show "loadActiveWorkspace (Some ex_saved) ex_parse initial_state = Inr ex_mounted"
    by (simp add: loadActiveWorkspace_def ex_parse_def ex_mounted_def ex_saved_def)
  show "search_disabled (setQuery ''climate'' ex_mounted) = False"
    by (simp add: search_disabled_def setQuery_def ex_mounted_def initial_state_def trim_def
        js_whitespace_def)
  show "handleSearch (setQuery ''climate'' ex_mounted)
       (searchNews (JStr ''climate'') JNull (JStr ''en'') (JNum 20) ex_found) =
     (ex_results, Some (SearchNews (JStr ''climate'') JNull (JStr ''en'') (JNum 20)))"
    by (simp add: handleSearch_def handleSearch_begin_def handleSearch_settle_def
        handleSearch_try_def response_data_articles_def searchNews_def await_request_def
        get_prop_def js_or_def setQuery_def ex_mounted_def ex_results_def ex_found_def
        initial_state_def trim_def js_whitespace_def ex_article_A_def ex_article_B_def)
  show "add_disabled ex_results ex_article_A = Inr False"
    by (simp add: add_disabled_def get_prop_def articleKey_def js_or_def ex_results_def
        ex_mounted_def initial_state_def ex_article_A_def ex_workspace_def)
  show "handleAddToWorkspace ex_results ex_article_A ex_now
       (addNewsToWorkspace (article_payload ex_article_A ex_workspace ex_now) ex_stored) =
     Inr (ex_added_A,
          Some (AddNewsToWorkspace (article_payload ex_article_A ex_workspace ex_now)))"
    by (simp add: handleAddToWorkspace_def handleAddToWorkspace_begin_def
        handleAddToWorkspace_settle_def handleAddToWorkspace_try_def addNewsToWorkspace_def
        await_request_def get_prop_def articleKey_def js_or_def ex_results_def ex_mounted_def
        ex_added_A_def initial_state_def ex_article_A_def ex_workspace_def ex_stored_def)
  show "search_disabled (setQuery ''zzz'' ex_added_A) = False"
    by (simp add: search_disabled_def setQuery_def ex_added_A_def ex_results_def
        ex_mounted_def initial_state_def trim_def js_whitespace_def)
  show "handleSearch (setQuery ''zzz'' ex_added_A)
       (searchNews (JStr ''zzz'') JNull (JStr ''en'') (JNum 20) ex_nothing) =
     (ex_no_results, Some (SearchNews (JStr ''zzz'') JNull (JStr ''en'') (JNum 20)))"
    by (simp add: handleSearch_def handleSearch_begin_def handleSearch_settle_def
        handleSearch_try_def response_data_articles_def searchNews_def await_request_def
        get_prop_def js_or_def setQuery_def ex_no_results_def ex_added_A_def ex_results_def
        ex_mounted_def ex_nothing_def initial_state_def trim_def js_whitespace_def)
  show "truthy (error ex_no_results)"
    by (simp add: ex_no_results_def)
  show "truthy (JStr (successMessage ex_no_results))"
    by (simp add: ex_no_results_def ex_added_A_def)
qed

section \<open>The add button of an added article\<close>

text \<open>
  In any one state, the add button of an article whose key is in AddedSet is disabled;
  and a handler that runs from click to end with nothing in between only adds to
  AddedSet.
\<close>

lemma added_article_disabled:
  "\<not> nullish article \<Longrightarrow> articleKey article \<in> addedArticles s \<Longrightarrow>
   add_disabled s article = Inr True"
  by (simp add: add_disabled_def get_prop_def)

lemma handleAddToWorkspace_keeps_added:
  "handleAddToWorkspace s article now awaited = Inr (s', c) \<Longrightarrow>
   addedArticles s \<subseteq> addedArticles s'"
  by (auto simp: handleAddToWorkspace_def handleAddToWorkspace_begin_def
      handleAddToWorkspace_settle_def handleAddToWorkspace_try_def
      split: if_splits sum.splits prod.splits option.splits)

text \<open>
  Claim C9 does not hold when two add actions overlap. In this session A is clicked,
  then B while A's call is in flight (B's button is enabled); B's call returns success
  first, so B's key is in AddedSet and B's button is disabled. Then A's call returns
  success, and the rest of A's handler builds the new AddedSet and pending map from the
  values its closure holds, those of the render in which A was clicked: B's key is no
  longer in AddedSet, B's button is enabled again, and clicking it sends a second add
  request for B.
\<close>

theorem C9_added_article_enabled_again:
  "add_disabled ex_results ex_article_A = Inr False \<and>
   handleAddToWorkspace_begin ex_results ex_article_A ex_now =
     Inr (ex_pending_A,
          Some (AddNewsToWorkspace (article_payload ex_article_A ex_workspace ex_now))) \<and>
   add_disabled ex_pending_A ex_article_B = Inr False \<and>
   handleAddToWorkspace_begin ex_pending_A ex_article_B ex_now =
     Inr (ex_pending_AB,
          Some (AddNewsToWorkspace (article_payload ex_article_B ex_workspace ex_now))) \<and>
   handleAddToWorkspace_settle ex_pending_A ex_article_B
       (addNewsToWorkspace (article_payload ex_article_B ex_workspace ex_now) ex_stored)
       ex_pending_AB = ex_settled_B \<and>
   articleKey ex_article_B \<in> addedArticles ex_settled_B \<and>
   add_disabled ex_settled_B ex_article_B = Inr True \<and>
   handleAddToWorkspace_settle ex_results ex_article_A
       (addNewsToWorkspace (article_payload ex_article_A ex_workspace ex_now) ex_stored)
       ex_settled_B = ex_settled_BA \<and>
   articleKey ex_article_B \<notin> addedArticles ex_settled_BA \<and>
   add_disabled ex_settled_BA ex_article_B = Inr False \<and>
   map_sum id snd (handleAddToWorkspace_begin ex_settled_BA ex_article_B ex_now) =
     Inr (Some (AddNewsToWorkspace (article_payload ex_article_B ex_workspace ex_now)))"
  by (simp add: ex_workspace_def ex_article_A_def ex_article_B_def ex_stored_def
      ex_mounted_def ex_results_def ex_pending_A_def ex_pending_AB_def ex_settled_B_def
      ex_settled_BA_def initial_state_def handleAddToWorkspace_begin_def
      handleAddToWorkspace_settle_def handleAddToWorkspace_try_def addNewsToWorkspace_def
      await_request_def get_prop_def articleKey_def js_or_def add_disabled_def)

end
